theory Spec2Isabelle
  imports Complex_Main
begin

section \<open>The adaptive token poller (examples/dynamic_api_key_server.py)\<close>

text \<open>
  Python floats (\<^verbatim>\<open>time.time()\<close>, the mean and the variance) are taken as exact reals;
  Python's unbounded integers are \<^typ>\<open>int\<close>.
\<close>

record TokenPattern =
  refresh_intervals :: "int list"
  last_refresh_time :: real
  confidence_level :: int

record AdaptiveTokenPoller =
  current_token :: "string option"
  pattern :: TokenPattern
  polling_interval :: int
  running :: bool

text \<open>\<^verbatim>\<open>AdaptiveTokenPoller.__init__\<close> and \<^verbatim>\<open>start_polling\<close>.\<close>

definition init_poller :: AdaptiveTokenPoller where
  "init_poller =
     \<lparr>current_token = None,
      pattern = \<lparr>refresh_intervals = [], last_refresh_time = 0, confidence_level = 0\<rparr>,
      polling_interval = 30,
      running = False\<rparr>"

definition start_polling :: "AdaptiveTokenPoller \<Rightarrow> AdaptiveTokenPoller" where
  "start_polling s = s\<lparr>running := True\<rparr>"

text \<open>Python's \<^verbatim>\<open>int(x)\<close> on a float truncates towards zero.\<close>

definition py_int :: "real \<Rightarrow> int" where
  "py_int x = (if 0 \<le> x then \<lfloor>x\<rfloor> else \<lceil>x\<rceil>)"

text \<open>
  \<^verbatim>\<open>_update_pattern\<close>: append, \<^verbatim>\<open>pop(0)\<close> when more than five entries are held, and
  the confidence update behind the guard \<^verbatim>\<open>len(...) >= 3\<close>.
\<close>

definition update_pattern :: "TokenPattern \<Rightarrow> real \<Rightarrow> TokenPattern" where
  "update_pattern p interval =
     (let appended = refresh_intervals p @ [py_int interval];
          intervals = (if length appended > 5 then tl appended else appended);
          p1 = p\<lparr>refresh_intervals := intervals\<rparr>
      in if length intervals \<ge> 3 then
           (let avg_interval = real_of_int (sum_list intervals) / real (length intervals);
                variance = (\<Sum>x\<leftarrow>intervals. (real_of_int x - avg_interval)\<^sup>2)
                             / real (length intervals)
            in if variance < 100
               then p1\<lparr>confidence_level := confidence_level p1 + 1\<rparr>
               else p1\<lparr>confidence_level := max 0 (confidence_level p1 - 1)\<rparr>)
         else p1)"

text \<open>\<^verbatim>\<open>_calculate_next_poll_interval\<close>, with its early returns in the source's order.\<close>

definition calculate_next_poll_interval :: "TokenPattern \<Rightarrow> int \<Rightarrow> real \<Rightarrow> int" where
  "calculate_next_poll_interval p consecutive_same_tokens current_time =
     (if confidence_level p \<ge> 3 \<and> refresh_intervals p \<noteq> [] then
        (let avg_refresh_time =
               real_of_int (sum_list (refresh_intervals p)) / real (length (refresh_intervals p));
             time_since_last_refresh = current_time - last_refresh_time p;
             time_until_next_refresh = avg_refresh_time - time_since_last_refresh
         in if time_until_next_refresh > 300 then 120
            else if time_until_next_refresh > 120 then 60
            else 30)
      else if consecutive_same_tokens < 5 then 30
      else if consecutive_same_tokens < 20 then 60
      else if consecutive_same_tokens < 40 then 120
      else 300)"

text \<open>
  One pass of \<^verbatim>\<open>_poll_loop\<close>. What the loop reads from outside in a pass is an event:
  what \<^verbatim>\<open>_fetch_token_from_helix\<close> did (returned a token, or raised an
  \<^verbatim>\<open>Exception\<close> with a message), the clock read by \<^verbatim>\<open>time.time()\<close>, and whether
  \<^verbatim>\<open>stop_polling\<close> ran before the next test of \<^verbatim>\<open>self.running\<close>.
\<close>

datatype fetch_outcome = Returned string | Raised string

record poll_event =
  outcome :: fetch_outcome
  now :: real
  stop_requested :: bool

text \<open>
  The body of the \<^verbatim>\<open>try\<close>: an exception of the fetch leaves it as \<open>Inl\<close>, before
  anything is written; otherwise the new state, the new count of consecutive identical
  tokens and the sleep.
\<close>

definition poll_body ::
  "AdaptiveTokenPoller \<Rightarrow> int \<Rightarrow> poll_event \<Rightarrow> string + (AdaptiveTokenPoller \<times> int \<times> int)" where
  "poll_body s consecutive_same_tokens ev =
     (case outcome ev of
        Raised msg \<Rightarrow> Inl msg
      | Returned new_token \<Rightarrow>
          (let current_time = now ev;
               s1 = (if Some new_token \<noteq> current_token s then
                       (let p1 = (if current_token s \<noteq> None
                                  then update_pattern (pattern s)
                                         (current_time - last_refresh_time (pattern s))
                                  else pattern s)
                        in s\<lparr>current_token := Some new_token,
                             pattern := p1\<lparr>last_refresh_time := current_time\<rparr>\<rparr>)
                     else s);
               c1 = (if Some new_token \<noteq> current_token s then 0
                     else consecutive_same_tokens + 1)
           in Inr (s1, c1, calculate_next_poll_interval (pattern s1) c1 current_time)))"

text \<open>The \<^verbatim>\<open>except Exception\<close> handler: log, sleep 30 seconds, go on.\<close>

definition iteration ::
  "AdaptiveTokenPoller \<Rightarrow> int \<Rightarrow> poll_event \<Rightarrow> AdaptiveTokenPoller \<times> int \<times> int" where
  "iteration s consecutive_same_tokens ev =
     (case poll_body s consecutive_same_tokens ev of
        Inl e \<Rightarrow> (s, consecutive_same_tokens, 30)
      | Inr r \<Rightarrow> r)"

text \<open>
  \<^verbatim>\<open>while self.running\<close> over a finite prefix of the events: the result is the state,
  the count, and the sleeps of the passes made, in order.
\<close>

fun poll_loop ::
  "AdaptiveTokenPoller \<Rightarrow> int \<Rightarrow> poll_event list \<Rightarrow> AdaptiveTokenPoller \<times> int \<times> int list" where
  "poll_loop s c [] = (s, c, [])"
| "poll_loop s c (ev # evs) =
     (if running s then
        (case iteration s c ev of
           (s1, c1, d) \<Rightarrow>
             (case poll_loop (if stop_requested ev then s1\<lparr>running := False\<rparr> else s1) c1 evs of
                (s2, c2, ds) \<Rightarrow> (s2, c2, d # ds)))
      else (s, c, []))"

subsection \<open>Notions of the specification, for stating the poller's properties\<close>

text \<open>The mean and the population variance of a window of intervals.\<close>

definition mean :: "int list \<Rightarrow> real" where
  "mean xs = real_of_int (sum_list xs) / real (length xs)"

definition population_variance :: "int list \<Rightarrow> real" where
  "population_variance xs = (\<Sum>x\<leftarrow>xs. (real_of_int x - mean xs)\<^sup>2) / real (length xs)"

text \<open>\<open>remaining = mean(observedIntervals) - (now - lastRotationTime)\<close>.\<close>

definition remaining :: "TokenPattern \<Rightarrow> real \<Rightarrow> real" where
  "remaining p t = mean (refresh_intervals p) - (t - last_refresh_time p)"

text \<open>The most recent five entries of a chronological list.\<close>

definition last_five :: "'a list \<Rightarrow> 'a list" where
  "last_five xs = drop (length xs - 5) xs"

text \<open>
  A rotation is detected in a pass when the fetch returns a token that differs from the
  one held, and one is held (the first fetch ever is no rotation).
\<close>

definition rotation_detected :: "AdaptiveTokenPoller \<Rightarrow> poll_event \<Rightarrow> bool" where
  "rotation_detected s ev =
     (case outcome ev of
        Raised msg \<Rightarrow> False
      | Returned tok \<Rightarrow> (case current_token s of None \<Rightarrow> False | Some old \<Rightarrow> old \<noteq> tok))"

text \<open>
  The events the loop gets to: all up to the first during which \<^verbatim>\<open>stop_polling\<close> ran.
\<close>

fun handled :: "poll_event list \<Rightarrow> poll_event list" where
  "handled [] = []"
| "handled (ev # evs) = ev # (if stop_requested ev then [] else handled evs)"

text \<open>
  Read off the events alone, given the token held and the time of its arrival: the
  interval of every rotation, in order of time, and the number of rotations.
\<close>

fun rotation_intervals :: "string option \<Rightarrow> real \<Rightarrow> poll_event list \<Rightarrow> int list" where
  "rotation_intervals cur last_t [] = []"
| "rotation_intervals cur last_t (ev # evs) =
     (case outcome ev of
        Raised msg \<Rightarrow> rotation_intervals cur last_t evs
      | Returned tok \<Rightarrow>
          (case cur of
             None \<Rightarrow> rotation_intervals (Some tok) (now ev) evs
           | Some old \<Rightarrow>
               if old = tok then rotation_intervals cur last_t evs
               else py_int (now ev - last_t) # rotation_intervals (Some tok) (now ev) evs))"

fun rotations_seen :: "string option \<Rightarrow> poll_event list \<Rightarrow> nat" where
  "rotations_seen cur [] = 0"
| "rotations_seen cur (ev # evs) =
     (case outcome ev of
        Raised msg \<Rightarrow> rotations_seen cur evs
      | Returned tok \<Rightarrow>
          (case cur of
             None \<Rightarrow> rotations_seen (Some tok) evs
           | Some old \<Rightarrow> (if old = tok then 0 else 1) + rotations_seen (Some tok) evs))"

section \<open>The dynamic key provider (src/mcp_agent/llm/dynamic_key_provider.py)\<close>

text \<open>
  What \<^verbatim>\<open>response.json()\<close> returns: Python values decoded from JSON. The body itself is
  a JSON object, as in both formats the endpoint documents, read as a dictionary.
\<close>

datatype json =
    JNull
  | JBool bool
  | JNum real
  | JStr string
  | JList "json list"
  | JDict "(string \<times> json) list"

type_synonym json_object = "string \<rightharpoonup> json"

text \<open>Python's truth value of a decoded value (\<^verbatim>\<open>not api_key\<close>).\<close>

fun truthy :: "json \<Rightarrow> bool" where
  "truthy JNull = False"
| "truthy (JBool b) = b"
| "truthy (JNum r) = (r \<noteq> 0)"
| "truthy (JStr s) = (s \<noteq> [])"
| "truthy (JList xs) = (xs \<noteq> [])"
| "truthy (JDict kvs) = (kvs \<noteq> [])"

text \<open>
  The exceptions raised inside \<^verbatim>\<open>fetch_api_key\<close>. \<^verbatim>\<open>ProviderKeyError\<close> is built from
  a message and details; the details are f-strings, kept here as the values they are
  formatted from. The class is imported from \<^verbatim>\<open>mcp_agent.core.exceptions\<close> and is an
  ordinary \<^verbatim>\<open>Exception\<close>, neither of httpx's two.
\<close>

datatype details =
    EndpointDidNotReturn string json_object
  | HTTPText int string
  | CouldNotReach string string
  | ErrorStr exn
and exn =
    HTTPStatusError int string
  | RequestError string
  | JSONDecodeError string
  | TypeError string
  | ValidationError string
  | ProviderKeyError string details

record DynamicKeyConfig =
  endpoint_url :: string
  cache_duration_seconds :: int
  timeout_seconds :: int

record CachedApiKey =
  key :: string
  expires_at :: real

text \<open>\<^verbatim>\<open>CachedApiKey.is_expired\<close>, at the clock reading \<open>t\<close>.\<close>

definition is_expired :: "real \<Rightarrow> CachedApiKey \<Rightarrow> bool" where
  "is_expired t c = (t > expires_at c)"

record DynamicKeyProvider =
  config :: DynamicKeyConfig
  cache :: "string \<rightharpoonup> CachedApiKey"

text \<open>
  What one call reads from outside: the clock at the expiry test, what the GET and
  \<^verbatim>\<open>raise_for_status\<close> and \<^verbatim>\<open>json()\<close> did, and the clock when the expiry is
  computed.
\<close>

datatype http_result =
    RequestFailed string
  | StatusFailed int string
  | BodyNotJson string
  | Body json_object

record fetch_env =
  check_time :: real
  response :: http_result
  store_time :: real

text \<open>A number in arithmetic: \<^verbatim>\<open>bool\<close> is a subclass of \<^verbatim>\<open>int\<close>; anything else raises.\<close>

fun as_number :: "json \<Rightarrow> exn + real" where
  "as_number (JNum r) = Inr r"
| "as_number (JBool b) = Inr (if b then 1 else 0)"
| "as_number v = Inl (TypeError ''unsupported operand type(s)'')"

text \<open>
  Lines 101 to 117: the pair \<^verbatim>\<open>(api_key, expires_in)\<close> read from the body, \<^verbatim>\<open>None\<close>
  being \<open>JNull\<close>.
\<close>

definition read_key_response :: "DynamicKeyConfig \<Rightarrow> json_object \<Rightarrow> exn + (json \<times> json)" where
  "read_key_response cfg data =
     (case data ''token'' of
        Some tok \<Rightarrow>
          (case data ''age_seconds'' of
             Some age_seconds \<Rightarrow>
               (case as_number age_seconds of
                  Inl e \<Rightarrow> Inl e
                | Inr a \<Rightarrow> Inr (tok, JNum (max 60 (1800 - a))))
           | None \<Rightarrow> Inr (tok, JNum (real_of_int (cache_duration_seconds cfg))))
      | None \<Rightarrow>
          (case data ''api_key'' of
             Some k \<Rightarrow>
               Inr (k, (case data ''expires_in'' of
                          Some e \<Rightarrow> e
                        | None \<Rightarrow> JNum (real_of_int (cache_duration_seconds cfg))))
           | None \<Rightarrow> Inr (JNull, JNum (real_of_int (cache_duration_seconds cfg)))))"

text \<open>
  The body of the \<^verbatim>\<open>try\<close>, from the request to the cache entry. pydantic accepts only
  a string for \<^verbatim>\<open>CachedApiKey.key\<close>.
\<close>

definition fetch_new_key ::
  "DynamicKeyConfig \<Rightarrow> string \<Rightarrow> fetch_env \<Rightarrow> exn + (string \<times> CachedApiKey)" where
  "fetch_new_key cfg provider_name env =
     (case response env of
        RequestFailed cause \<Rightarrow> Inl (RequestError cause)
      | StatusFailed status_code resp_text \<Rightarrow> Inl (HTTPStatusError status_code resp_text)
      | BodyNotJson msg \<Rightarrow> Inl (JSONDecodeError msg)
      | Body data \<Rightarrow>
          (case read_key_response cfg data of
             Inl e \<Rightarrow> Inl e
           | Inr (api_key, expires_in) \<Rightarrow>
               if \<not> truthy api_key then
                 Inl (ProviderKeyError ''Invalid response from key endpoint''
                        (EndpointDidNotReturn provider_name data))
               else
                 (case as_number expires_in of
                    Inl e \<Rightarrow> Inl e
                  | Inr x \<Rightarrow>
                      (case api_key of
                         JStr k \<Rightarrow> Inr (k, \<lparr>key = k, expires_at = store_time env + x\<rparr>)
                       | _ \<Rightarrow> Inl (ValidationError ''key: Input should be a valid string'')))))"

text \<open>The three \<^verbatim>\<open>except\<close> clauses, tried in the source's order.\<close>

fun key_error :: "DynamicKeyConfig \<Rightarrow> string \<Rightarrow> exn \<Rightarrow> exn" where
  "key_error cfg provider_name (HTTPStatusError status_code resp_text) =
     ProviderKeyError (''Failed to fetch API key for '' @ provider_name)
       (HTTPText status_code resp_text)"
| "key_error cfg provider_name (RequestError cause) =
     ProviderKeyError ''Failed to connect to key endpoint''
       (CouldNotReach (endpoint_url cfg) cause)"
| "key_error cfg provider_name e =
     ProviderKeyError ''Unexpected error fetching API key'' (ErrorStr e)"

text \<open>
  \<^verbatim>\<open>fetch_api_key\<close>, the whole of it under the lock: what the caller gets, the provider
  afterwards, and the number of requests sent.
\<close>

record fetch_result =
  returned :: "exn + string"
  provider_after :: DynamicKeyProvider
  requests :: nat

definition refetch :: "DynamicKeyProvider \<Rightarrow> string \<Rightarrow> fetch_env \<Rightarrow> fetch_result" where
  "refetch s provider_name env =
     (case fetch_new_key (config s) provider_name env of
        Inl e \<Rightarrow>
          \<lparr>returned = Inl (key_error (config s) provider_name e),
           provider_after = s, requests = 1\<rparr>
      | Inr (api_key, entry) \<Rightarrow>
          \<lparr>returned = Inr api_key,
           provider_after = s\<lparr>cache := (cache s)(provider_name \<mapsto> entry)\<rparr>,
           requests = 1\<rparr>)"

definition fetch_api_key :: "DynamicKeyProvider \<Rightarrow> string \<Rightarrow> fetch_env \<Rightarrow> fetch_result" where
  "fetch_api_key s provider_name env =
     (case cache s provider_name of
        Some cached_key \<Rightarrow>
          if \<not> is_expired (check_time env) cached_key
          then \<lparr>returned = Inr (key cached_key), provider_after = s, requests = 0\<rparr>
          else refetch s provider_name env
      | None \<Rightarrow> refetch s provider_name env)"

text \<open>Calls made one after the other, each on the provider the one before left.\<close>

fun fetch_seq :: "DynamicKeyProvider \<Rightarrow> (string \<times> fetch_env) list \<Rightarrow> fetch_result list" where
  "fetch_seq s [] = []"
| "fetch_seq s ((k, env) # calls) =
     fetch_api_key s k env # fetch_seq (provider_after (fetch_api_key s k env)) calls"

text \<open>
  An entry is valid while \<open>now \<le> expiresAt\<close>; a key with no entry has no valid one.
\<close>

definition cache_valid :: "DynamicKeyProvider \<Rightarrow> string \<Rightarrow> real \<Rightarrow> bool" where
  "cache_valid s k t = (case cache s k of None \<Rightarrow> False | Some c \<Rightarrow> t \<le> expires_at c)"

text \<open>
  The configuration of the example in the server's docstring, used in the concrete cases
  below.
\<close>

definition example_config :: DynamicKeyConfig where
  "example_config =
     \<lparr>endpoint_url = ''http://localhost:8000'', cache_duration_seconds = 300,
      timeout_seconds = 10\<rparr>"

section \<open>Properties of the poller\<close>

subsection \<open>The pattern update\<close>

lemma update_pattern_confidence:
  "confidence_level (update_pattern p x) =
     (if length (refresh_intervals (update_pattern p x)) \<ge> 3 then
        (if population_variance (refresh_intervals (update_pattern p x)) < 100
         then confidence_level p + 1
         else max 0 (confidence_level p - 1))
      else confidence_level p)"
  by (simp add: update_pattern_def Let_def population_variance_def mean_def)

lemma iteration_rotation:
  "rotation_detected s ev \<Longrightarrow>
     pattern (fst (iteration s c ev)) =
       (update_pattern (pattern s) (now ev - last_refresh_time (pattern s)))
         \<lparr>last_refresh_time := now ev\<rparr>"
  by (auto simp: rotation_detected_def iteration_def poll_body_def Let_def
           split: fetch_outcome.splits option.splits)

lemma iteration_no_rotation:
  "\<not> rotation_detected s ev \<Longrightarrow>
     confidence_level (pattern (fst (iteration s c ev))) = confidence_level (pattern s) \<and>
     refresh_intervals (pattern (fst (iteration s c ev))) = refresh_intervals (pattern s)"
  by (auto simp: rotation_detected_def iteration_def poll_body_def Let_def
           split: fetch_outcome.splits option.splits)

text \<open>
  C1, as the code has it. When a rotation is detected the pass replaces the pattern by
  \<open>update_pattern\<close> of it, which appends the interval; the confidence is then recomputed
  only if the window, after the append and the eviction, holds at least three samples: it
  grows by exactly one (no cap) when the population variance of the window is below 100,
  and otherwise drops by one, not below zero. With fewer than three samples in the window
  the confidence stays as it was. In a pass that detects no rotation neither the
  confidence nor the window changes.
\<close>

theorem confidence_recomputed_from_three_samples:
  "confidence_level (update_pattern p x) =
     (if length (refresh_intervals (update_pattern p x)) \<ge> 3 then
        (if population_variance (refresh_intervals (update_pattern p x)) < 100
         then confidence_level p + 1
         else max 0 (confidence_level p - 1))
      else confidence_level p) \<and>
   (rotation_detected s ev \<longrightarrow>
      pattern (fst (iteration s c ev)) =
        (update_pattern (pattern s) (now ev - last_refresh_time (pattern s)))
          \<lparr>last_refresh_time := now ev\<rparr>) \<and>
   (\<not> rotation_detected s ev \<longrightarrow>
      confidence_level (pattern (fst (iteration s c ev))) = confidence_level (pattern s) \<and>
      refresh_intervals (pattern (fst (iteration s c ev))) = refresh_intervals (pattern s))"
  using update_pattern_confidence iteration_rotation iteration_no_rotation by blast

text \<open>
  The theorem at work: a third interval of low variance raises the confidence from 0 to 1;
  a new token is a rotation, the same token is none and leaves the confidence at 2.
\<close>

theorem confidence_recomputed_from_three_samples_witness:
  "confidence_level
     (update_pattern
        \<lparr>refresh_intervals = [1800, 1801], last_refresh_time = 0, confidence_level = 0\<rparr>
        (3599 / 2)) = 1 \<and>
   rotation_detected
     (init_poller\<lparr>current_token := Some ''a'', running := True\<rparr>)
     \<lparr>outcome = Returned ''b'', now = 1800, stop_requested = False\<rparr> \<and>
   pattern (fst (iteration (init_poller\<lparr>current_token := Some ''a'', running := True\<rparr>) 0
       \<lparr>outcome = Returned ''b'', now = 1800, stop_requested = False\<rparr>)) =
     \<lparr>refresh_intervals = [1800], last_refresh_time = 1800, confidence_level = 0\<rparr> \<and>
   \<not> rotation_detected
     (init_poller\<lparr>current_token := Some ''a'',
        pattern := \<lparr>refresh_intervals = [7], last_refresh_time = 0, confidence_level = 2\<rparr>\<rparr>)
     \<lparr>outcome = Returned ''a'', now = 30, stop_requested = False\<rparr> \<and>
   confidence_level (pattern (fst (iteration
       (init_poller\<lparr>current_token := Some ''a'',
          pattern := \<lparr>refresh_intervals = [7], last_refresh_time = 0, confidence_level = 2\<rparr>\<rparr>)
       4 \<lparr>outcome = Returned ''a'', now = 30, stop_requested = False\<rparr>))) = 2"
  using
    confidence_recomputed_from_three_samples
      [of "\<lparr>refresh_intervals = [1800, 1801], last_refresh_time = 0, confidence_level = 0\<rparr>"
          "3599 / 2"
          "init_poller\<lparr>current_token := Some ''a'', running := True\<rparr>"
          "\<lparr>outcome = Returned ''b'', now = 1800, stop_requested = False\<rparr>" 0]
    confidence_recomputed_from_three_samples
      [of "\<lparr>refresh_intervals = [1800, 1801], last_refresh_time = 0, confidence_level = 0\<rparr>"
          "3599 / 2"
          "init_poller\<lparr>current_token := Some ''a'',
             pattern := \<lparr>refresh_intervals = [7], last_refresh_time = 0, confidence_level = 2\<rparr>\<rparr>"
          "\<lparr>outcome = Returned ''a'', now = 30, stop_requested = False\<rparr>" 4]
  by (simp add: update_pattern_def Let_def population_variance_def mean_def py_int_def
        rotation_detected_def init_poller_def)

text \<open>
  C1 as it is written fails: the first rotation after the first fetch appends the
  interval 1800 to an empty window, the variance of the one-sample window is 0, below 100,
  and the confidence is still 0, not 1.
\<close>

theorem confidence_unchanged_below_three_samples_counterexample:
  "rotation_detected
     (init_poller\<lparr>current_token := Some ''a'', running := True\<rparr>)
     \<lparr>outcome = Returned ''b'', now = 1800, stop_requested = False\<rparr> \<and>
   refresh_intervals (pattern (fst (iteration
       (init_poller\<lparr>current_token := Some ''a'', running := True\<rparr>) 0
       \<lparr>outcome = Returned ''b'', now = 1800, stop_requested = False\<rparr>))) = [1800] \<and>
   population_variance [1800] < 100 \<and>
   confidence_level (pattern (init_poller\<lparr>current_token := Some ''a'', running := True\<rparr>)) = 0 \<and>
   confidence_level (pattern (fst (iteration
       (init_poller\<lparr>current_token := Some ''a'', running := True\<rparr>) 0
       \<lparr>outcome = Returned ''b'', now = 1800, stop_requested = False\<rparr>))) \<noteq> 1"
  by (simp add: iteration_def poll_body_def update_pattern_def Let_def population_variance_def
        mean_def py_int_def rotation_detected_def init_poller_def)

subsection \<open>The next sleep\<close>

lemma calculate_next_poll_interval_cases:
  "(confidence_level p \<ge> 3 \<and> refresh_intervals p \<noteq> [] \<longrightarrow>
      (remaining p t > 300 \<longrightarrow> calculate_next_poll_interval p c t = 120) \<and>
      (120 < remaining p t \<and> remaining p t \<le> 300 \<longrightarrow>
         calculate_next_poll_interval p c t = 60) \<and>
      (remaining p t \<le> 120 \<longrightarrow> calculate_next_poll_interval p c t = 30)) \<and>
   (confidence_level p < 3 \<or> refresh_intervals p = [] \<longrightarrow>
      (c < 5 \<longrightarrow> calculate_next_poll_interval p c t = 30) \<and>
      (5 \<le> c \<and> c < 20 \<longrightarrow> calculate_next_poll_interval p c t = 60) \<and>
      (20 \<le> c \<and> c < 40 \<longrightarrow> calculate_next_poll_interval p c t = 120) \<and>
      (40 \<le> c \<longrightarrow> calculate_next_poll_interval p c t = 300))"
  by (auto simp: calculate_next_poll_interval_def remaining_def mean_def Let_def)

text \<open>
  A pass whose fetch returns: the count is reset by a new token and grows by one with
  the same token, and the sleep is the policy's value at the pattern and the count the
  pass leaves and at the clock the pass read.
\<close>

lemma iteration_returned_count:
  "outcome ev = Returned tok \<Longrightarrow>
   fst (snd (iteration s c ev)) = (if Some tok \<noteq> current_token s then 0 else c + 1)"
  by (simp add: iteration_def poll_body_def Let_def)

lemma iteration_returned_sleep:
  "outcome ev = Returned tok \<Longrightarrow>
   snd (snd (iteration s c ev)) =
     calculate_next_poll_interval (pattern (fst (iteration s c ev)))
       (fst (snd (iteration s c ev))) (now ev)"
  by (simp add: iteration_def poll_body_def Let_def)

lemma poll_loop_first_sleep:
  "running s \<Longrightarrow> hd (snd (snd (poll_loop s c (ev # evs)))) = snd (snd (iteration s c ev))"
  by (simp split: prod.splits)

text \<open>
  C2. The sleep computed at the end of a pass of the loop whose fetch returned is the
  value of the policy at the pattern and the count of consecutive identical tokens that
  the pass leaves, and at the clock reading of the pass. The policy takes the first rule
  that matches: with confidence at least 3 and a window that is not empty, 120 when
  \<open>remaining > 300\<close>, 60 when \<open>120 < remaining \<le> 300\<close>, 30 when \<open>remaining \<le> 120\<close>;
  otherwise, by the count, 30 below 5, 60 below 20, 120 below 40, and 300 from 40 on.
\<close>

theorem next_poll_interval_first_match:
  "(outcome ev = Returned tok \<longrightarrow>
      fst (snd (iteration s n ev)) = (if Some tok \<noteq> current_token s then 0 else n + 1) \<and>
      snd (snd (iteration s n ev)) =
        calculate_next_poll_interval (pattern (fst (iteration s n ev)))
          (fst (snd (iteration s n ev))) (now ev)) \<and>
   (running s \<and> outcome ev = Returned tok \<longrightarrow>
      hd (snd (snd (poll_loop s n (ev # evs)))) =
        calculate_next_poll_interval (pattern (fst (iteration s n ev)))
          (fst (snd (iteration s n ev))) (now ev)) \<and>
   (confidence_level p \<ge> 3 \<and> refresh_intervals p \<noteq> [] \<longrightarrow>
      (remaining p t > 300 \<longrightarrow> calculate_next_poll_interval p c t = 120) \<and>
      (120 < remaining p t \<and> remaining p t \<le> 300 \<longrightarrow>
         calculate_next_poll_interval p c t = 60) \<and>
      (remaining p t \<le> 120 \<longrightarrow> calculate_next_poll_interval p c t = 30)) \<and>
   (confidence_level p < 3 \<or> refresh_intervals p = [] \<longrightarrow>
      (c < 5 \<longrightarrow> calculate_next_poll_interval p c t = 30) \<and>
      (5 \<le> c \<and> c < 20 \<longrightarrow> calculate_next_poll_interval p c t = 60) \<and>
      (20 \<le> c \<and> c < 40 \<longrightarrow> calculate_next_poll_interval p c t = 120) \<and>
      (40 \<le> c \<longrightarrow> calculate_next_poll_interval p c t = 300))"
proof -
  have pass: "outcome ev = Returned tok \<longrightarrow>
      fst (snd (iteration s n ev)) = (if Some tok \<noteq> current_token s then 0 else n + 1) \<and>
      snd (snd (iteration s n ev)) =
        calculate_next_poll_interval (pattern (fst (iteration s n ev)))
          (fst (snd (iteration s n ev))) (now ev)"
    using iteration_returned_count [of ev tok s n] iteration_returned_sleep [of ev tok s n]
    by blast
  have loop: "running s \<and> outcome ev = Returned tok \<longrightarrow>
      hd (snd (snd (poll_loop s n (ev # evs)))) =
        calculate_next_poll_interval (pattern (fst (iteration s n ev)))
          (fst (snd (iteration s n ev))) (now ev)"
    using poll_loop_first_sleep [of s n ev evs] iteration_returned_sleep [of ev tok s n]
    by simp
  from pass loop calculate_next_poll_interval_cases [of p t c] show ?thesis
    by blast
qed

text \<open>
  The theorem on two passes with an unchanged token. With a confident pattern of mean
  1800, read 1000 seconds after the rotation, the pass sleeps 120, the first sleep of the
  loop; without confidence and with five identical tokens before, the count becomes 6
  and the pass sleeps 60. Then the policy alone, 1600 and 1700 seconds after the
  rotation, and at the count 41.
\<close>

theorem next_poll_interval_first_match_witness:
  "iteration
     \<lparr>current_token = Some ''a'',
      pattern = \<lparr>refresh_intervals = [1800, 1801, 1799], last_refresh_time = 0,
                 confidence_level = 3\<rparr>,
      polling_interval = 30, running = True\<rparr>
     0 \<lparr>outcome = Returned ''a'', now = 1000, stop_requested = False\<rparr> =
     (\<lparr>current_token = Some ''a'',
       pattern = \<lparr>refresh_intervals = [1800, 1801, 1799], last_refresh_time = 0,
                  confidence_level = 3\<rparr>,
       polling_interval = 30, running = True\<rparr>, 1, 120) \<and>
   hd (snd (snd (poll_loop
     \<lparr>current_token = Some ''a'',
      pattern = \<lparr>refresh_intervals = [1800, 1801, 1799], last_refresh_time = 0,
                 confidence_level = 3\<rparr>,
      polling_interval = 30, running = True\<rparr>
     0 [\<lparr>outcome = Returned ''a'', now = 1000, stop_requested = False\<rparr>]))) = 120 \<and>
   snd (iteration (init_poller\<lparr>current_token := Some ''a'', running := True\<rparr>) 5
     \<lparr>outcome = Returned ''a'', now = 1000, stop_requested = False\<rparr>) = (6, 60) \<and>
   calculate_next_poll_interval
     \<lparr>refresh_intervals = [1800, 1801, 1799], last_refresh_time = 0, confidence_level = 3\<rparr>
     0 1600 = 60 \<and>
   calculate_next_poll_interval
     \<lparr>refresh_intervals = [1800, 1801, 1799], last_refresh_time = 0, confidence_level = 3\<rparr>
     0 1700 = 30 \<and>
   calculate_next_poll_interval
     \<lparr>refresh_intervals = [], last_refresh_time = 0, confidence_level = 0\<rparr> 41 1000 = 300"
proof -
  let ?p = "\<lparr>refresh_intervals = [1800, 1801, 1799], last_refresh_time = 0,
             confidence_level = 3\<rparr>"
  let ?q = "\<lparr>refresh_intervals = [], last_refresh_time = 0, confidence_level = 0\<rparr>"
  let ?s = "\<lparr>current_token = Some ''a'', pattern = ?p, polling_interval = 30,
             running = True\<rparr>"
  let ?u = "init_poller\<lparr>current_token := Some ''a'', running := True\<rparr>"
  let ?ev = "\<lparr>outcome = Returned ''a'', now = 1000, stop_requested = False\<rparr>"
  have same: "fst (iteration ?s 0 ?ev) = ?s" "fst (iteration ?u 5 ?ev) = ?u"
    by (simp_all add: iteration_def poll_body_def Let_def init_poller_def)
  have o: "outcome ?ev = Returned ''a''" "running ?s"
    by simp_all
  note confident = next_poll_interval_first_match
      [where s = ?s and n = 0 and ev = ?ev and tok = "''a''" and evs = "[]"
         and p = ?p and c = 1 and t = 1000]
  note idle = next_poll_interval_first_match
      [where s = ?u and n = 5 and ev = ?ev and tok = "''a''"
         and p = ?q and c = 6 and t = 1000]
  have r: "remaining ?p 1000 = 800" "remaining ?p 1600 = 200" "remaining ?p 1700 = 100"
    by (simp_all add: remaining_def mean_def)
  have 1: "fst (snd (iteration ?s 0 ?ev)) = 1"
    using confident o by simp
  have 2: "snd (snd (iteration ?s 0 ?ev)) = 120"
    using confident o r(1) unfolding same 1 by simp
  have 3: "hd (snd (snd (poll_loop ?s 0 [?ev]))) = 120"
    using confident o r(1) unfolding same 1 by simp
  have 4: "fst (snd (iteration ?u 5 ?ev)) = 6"
    using idle o(1) by (simp add: init_poller_def)
  have 5: "snd (snd (iteration ?u 5 ?ev)) = 60"
    using idle o(1) unfolding same 4 by (simp add: init_poller_def)
  have 6: "calculate_next_poll_interval ?p 0 1600 = 60"
    using next_poll_interval_first_match [where p = ?p and c = 0 and t = 1600] r(2)
    by simp
  have 7: "calculate_next_poll_interval ?p 0 1700 = 30"
    using next_poll_interval_first_match [where p = ?p and c = 0 and t = 1700] r(3)
    by simp
  have 8: "calculate_next_poll_interval ?q 41 1000 = 300"
    using next_poll_interval_first_match [where p = ?q and c = 41 and t = 1000]
    by simp
  have "iteration ?s 0 ?ev = (?s, 1, 120)"
    using same(1) 1 2 by (metis prod.collapse)
  moreover have "snd (iteration ?u 5 ?ev) = (6, 60)"
    using 4 5 by (metis prod.collapse)
  ultimately show ?thesis
    using 3 6 7 8 by simp
qed

subsection \<open>The window of intervals\<close>

lemma last_five_step:
  "(if length (last_five h @ [x]) > 5 then tl (last_five h @ [x]) else last_five h @ [x])
     = last_five (h @ [x])"
proof (cases "length h \<ge> 5")
  case True
  then have "length h - 4 = Suc (length h - 5)" by simp
  with True show ?thesis
    by (simp add: last_five_def drop_Suc tl_drop)
next
  case False
  then show ?thesis by (simp add: last_five_def)
qed

lemma length_last_five: "length (last_five xs) = min 5 (length xs)"
  by (simp add: last_five_def)

lemma update_pattern_last_five:
  "refresh_intervals p = last_five h \<Longrightarrow>
   refresh_intervals (update_pattern p x) = last_five (h @ [py_int x])"
  using last_five_step [of h "py_int x"]
  by (simp add: update_pattern_def Let_def)

lemma iteration_running: "running (fst (iteration s c ev)) = running s"
  by (auto simp: iteration_def poll_body_def Let_def split: fetch_outcome.splits)

lemma iteration_window:
  assumes "refresh_intervals (pattern s) = last_five h"
  shows "refresh_intervals (pattern (fst (iteration s c ev))) =
           last_five (h @ rotation_intervals (current_token s) (last_refresh_time (pattern s)) [ev])"
  using assms update_pattern_last_five [OF assms, of "now ev - last_refresh_time (pattern s)"]
  by (auto simp: iteration_def poll_body_def Let_def split: fetch_outcome.splits option.splits)

lemma iteration_token:
  "current_token (fst (iteration s c ev)) =
     (case outcome ev of Raised msg \<Rightarrow> current_token s | Returned tok \<Rightarrow> Some tok)"
  by (auto simp: iteration_def poll_body_def Let_def split: fetch_outcome.splits option.splits)

lemma iteration_last:
  "last_refresh_time (pattern (fst (iteration s c ev))) =
     (case outcome ev of
        Raised msg \<Rightarrow> last_refresh_time (pattern s)
      | Returned tok \<Rightarrow> if Some tok \<noteq> current_token s then now ev
                        else last_refresh_time (pattern s))"
  by (auto simp: iteration_def poll_body_def Let_def split: fetch_outcome.splits option.splits)

lemma rotation_intervals_Cons:
  "rotation_intervals cur t (ev # evs) =
     rotation_intervals cur t [ev] @
     rotation_intervals (case outcome ev of Raised msg \<Rightarrow> cur | Returned tok \<Rightarrow> Some tok)
       (case outcome ev of Raised msg \<Rightarrow> t
        | Returned tok \<Rightarrow> if Some tok \<noteq> cur then now ev else t) evs"
  by (auto split: fetch_outcome.splits option.splits)

lemma length_rotation_intervals:
  "length (rotation_intervals cur t evs) = rotations_seen cur evs"
  by (induction evs arbitrary: cur t) (auto split: fetch_outcome.splits option.splits)

text \<open>
  The invariant of the loop: if the window holds the last five of a history \<open>h\<close>, then
  after the loop it holds the last five of \<open>h\<close> extended by the intervals of the rotations
  seen since.
\<close>

lemma poll_loop_window:
  "running s \<Longrightarrow> refresh_intervals (pattern s) = last_five h \<Longrightarrow>
   refresh_intervals (pattern (fst (poll_loop s c evs))) =
     last_five (h @ rotation_intervals (current_token s) (last_refresh_time (pattern s))
                    (handled evs))"
proof (induction evs arbitrary: s c h)
  case Nil
  then show ?case by simp
next
  case (Cons ev evs)
  obtain s1 c1 d where it: "iteration s c ev = (s1, c1, d)"
    by (cases "iteration s c ev")
  have s1: "s1 = fst (iteration s c ev)" using it by simp
  have w1: "refresh_intervals (pattern s1) =
      last_five (h @ rotation_intervals (current_token s) (last_refresh_time (pattern s)) [ev])"
    unfolding s1 by (rule iteration_window [OF Cons.prems(2)])
  have r1: "running s1"
    unfolding s1 using Cons.prems(1) by (simp add: iteration_running)
  show ?case
  proof (cases "stop_requested ev")
    case True
    have "poll_loop (s1\<lparr>running := False\<rparr>) c1 evs = (s1\<lparr>running := False\<rparr>, c1, [])"
      by (cases evs) simp_all
    with True Cons.prems(1) it w1 show ?thesis by simp
  next
    case False
    obtain s2 c2 ds where lp: "poll_loop s1 c1 evs = (s2, c2, ds)"
      by (cases "poll_loop s1 c1 evs")
    have "refresh_intervals (pattern (fst (poll_loop s1 c1 evs))) =
       last_five
         ((h @ rotation_intervals (current_token s) (last_refresh_time (pattern s)) [ev]) @
          rotation_intervals (current_token s1) (last_refresh_time (pattern s1)) (handled evs))"
      by (rule Cons.IH [OF r1 w1])
    moreover have "current_token s1 =
        (case outcome ev of Raised msg \<Rightarrow> current_token s | Returned tok \<Rightarrow> Some tok)"
      unfolding s1 by (rule iteration_token)
    moreover have "last_refresh_time (pattern s1) =
        (case outcome ev of
           Raised msg \<Rightarrow> last_refresh_time (pattern s)
         | Returned tok \<Rightarrow> if Some tok \<noteq> current_token s then now ev
                           else last_refresh_time (pattern s))"
      unfolding s1 by (rule iteration_last)
    ultimately show ?thesis
      using False Cons.prems(1) it lp
      by (simp add: rotation_intervals_Cons [of _ _ ev "handled evs"]
               del: rotation_intervals.simps)
  qed
qed

text \<open>
  C3. For every sequence of events given to the loop of a freshly started poller, the
  window holds the most recent five of the rotation intervals, in order of time, so the
  oldest is the one evicted; its length is the smaller of 5 and the number of rotations
  seen, and never more than 5.
\<close>

theorem window_is_last_five_rotations:
  "refresh_intervals (pattern (fst (poll_loop (start_polling init_poller) c evs))) =
     last_five (rotation_intervals None 0 (handled evs)) \<and>
   length (refresh_intervals (pattern (fst (poll_loop (start_polling init_poller) c evs)))) =
     min 5 (rotations_seen None (handled evs)) \<and>
   length (refresh_intervals (pattern (fst (poll_loop (start_polling init_poller) c evs)))) \<le> 5"
proof -
  have "running (start_polling init_poller)"
    by (simp add: start_polling_def)
  moreover have "refresh_intervals (pattern (start_polling init_poller)) = last_five []"
    by (simp add: start_polling_def init_poller_def last_five_def)
  ultimately have
    "refresh_intervals (pattern (fst (poll_loop (start_polling init_poller) c evs))) =
       last_five ([] @ rotation_intervals (current_token (start_polling init_poller))
          (last_refresh_time (pattern (start_polling init_poller))) (handled evs))"
    by (rule poll_loop_window)
  then have w:
    "refresh_intervals (pattern (fst (poll_loop (start_polling init_poller) c evs))) =
       last_five (rotation_intervals None 0 (handled evs))"
    by (simp add: start_polling_def init_poller_def)
  show ?thesis
    unfolding w by (simp add: length_last_five length_rotation_intervals)
qed

text \<open>
  The theorem on ten events: seven tokens in a row with a failed fetch and a repeated
  token between them, a stop requested during the ninth event, so that the tenth is never
  fetched. Six rotations are seen, and the window holds the last five intervals.
\<close>

theorem window_is_last_five_rotations_witness:
  "refresh_intervals (pattern (fst (poll_loop (start_polling init_poller) 0
      [\<lparr>outcome = Returned ''t0'', now = 100, stop_requested = False\<rparr>,
       \<lparr>outcome = Returned ''t1'', now = 110, stop_requested = False\<rparr>,
       \<lparr>outcome = Raised ''Helix CLI failed'', now = 115, stop_requested = False\<rparr>,
       \<lparr>outcome = Returned ''t2'', now = 130, stop_requested = False\<rparr>,
       \<lparr>outcome = Returned ''t2'', now = 140, stop_requested = False\<rparr>,
       \<lparr>outcome = Returned ''t3'', now = 160, stop_requested = False\<rparr>,
       \<lparr>outcome = Returned ''t4'', now = 200, stop_requested = False\<rparr>,
       \<lparr>outcome = Returned ''t5'', now = 250, stop_requested = False\<rparr>,
       \<lparr>outcome = Returned ''t6'', now = 310, stop_requested = True\<rparr>,
       \<lparr>outcome = Returned ''t7'', now = 380, stop_requested = False\<rparr>]))) =
     [20, 30, 40, 50, 60]"
  using window_is_last_five_rotations [of 0
      "[\<lparr>outcome = Returned ''t0'', now = 100, stop_requested = False\<rparr>,
       \<lparr>outcome = Returned ''t1'', now = 110, stop_requested = False\<rparr>,
       \<lparr>outcome = Raised ''Helix CLI failed'', now = 115, stop_requested = False\<rparr>,
       \<lparr>outcome = Returned ''t2'', now = 130, stop_requested = False\<rparr>,
       \<lparr>outcome = Returned ''t2'', now = 140, stop_requested = False\<rparr>,
       \<lparr>outcome = Returned ''t3'', now = 160, stop_requested = False\<rparr>,
       \<lparr>outcome = Returned ''t4'', now = 200, stop_requested = False\<rparr>,
       \<lparr>outcome = Returned ''t5'', now = 250, stop_requested = False\<rparr>,
       \<lparr>outcome = Returned ''t6'', now = 310, stop_requested = True\<rparr>,
       \<lparr>outcome = Returned ''t7'', now = 380, stop_requested = False\<rparr>]"]
  by (simp add: last_five_def py_int_def)

subsection \<open>Failures of the credential source\<close>

lemma iteration_raised: "outcome ev = Raised msg \<Longrightarrow> iteration s c ev = (s, c, 30)"
  by (simp add: iteration_def poll_body_def)

lemma poll_loop_raised:
  "running s \<Longrightarrow> outcome ev = Raised msg \<Longrightarrow>
   poll_loop s c (ev # evs) =
     (case poll_loop (if stop_requested ev then s\<lparr>running := False\<rparr> else s) c evs of
        (s2, c2, ds) \<Rightarrow> (s2, c2, 30 # ds))"
  by (simp add: iteration_raised)

lemma poll_loop_length:
  "running s \<Longrightarrow> \<forall>ev\<in>set evs. \<not> stop_requested ev \<Longrightarrow>
     length (snd (snd (poll_loop s c evs))) = length evs \<and> running (fst (poll_loop s c evs))"
proof (induction evs arbitrary: s c)
  case Nil
  then show ?case by simp
next
  case (Cons ev evs)
  obtain s1 c1 d where it: "iteration s c ev = (s1, c1, d)"
    by (cases "iteration s c ev")
  have "running s1"
    using iteration_running [of s c ev] it Cons.prems(1) by simp
  moreover have "\<forall>ev\<in>set evs. \<not> stop_requested ev"
    using Cons.prems(2) by simp
  ultimately have "length (snd (snd (poll_loop s1 c1 evs))) = length evs \<and>
      running (fst (poll_loop s1 c1 evs))"
    by (rule Cons.IH)
  then show ?case using Cons.prems it by (auto split: prod.splits)
qed

lemma poll_loop_sleep_30:
  "running s \<Longrightarrow> \<forall>ev\<in>set evs. \<not> stop_requested ev \<Longrightarrow> i < length evs \<Longrightarrow>
   outcome (evs ! i) = Raised msg \<Longrightarrow> snd (snd (poll_loop s c evs)) ! i = 30"
proof (induction evs arbitrary: s c i)
  case Nil
  then show ?case by simp
next
  case (Cons ev evs)
  obtain s1 c1 d where it: "iteration s c ev = (s1, c1, d)"
    by (cases "iteration s c ev")
  have r1: "running s1"
    using iteration_running [of s c ev] it Cons.prems(1) by simp
  have ns: "\<forall>ev\<in>set evs. \<not> stop_requested ev"
    using Cons.prems(2) by simp
  show ?case
  proof (cases i)
    case 0
    then have "outcome ev = Raised msg" using Cons.prems(4) by simp
    then have "d = 30" using it by (simp add: iteration_raised)
    then show ?thesis using 0 Cons.prems(1) it by (auto split: prod.splits)
  next
    case (Suc j)
    then have "j < length evs" "outcome (evs ! j) = Raised msg"
      using Cons.prems(3,4) by simp_all
    with r1 ns have "snd (snd (poll_loop s1 c1 evs)) ! j = 30"
      by (rule Cons.IH)
    then show ?thesis using Suc Cons.prems(1,2) it by (auto split: prod.splits)
  qed
qed

text \<open>
  C8. A failure of the credential source never ends the loop. In a pass whose fetch
  raises, the exception is caught inside the loop: the pass leaves the state and the
  count as they were and sleeps the fixed 30 seconds, and the loop goes on with the next
  pass. As long as \<^verbatim>\<open>running\<close> is true and no stop is requested, the loop makes a pass
  for every event whatever the fetches did, is still running afterwards, and the sleep
  of every failed pass is 30.
\<close>

theorem source_failure_never_ends_loop:
  "(outcome ev = Raised msg \<longrightarrow>
      poll_body s c ev = Inl msg \<and> iteration s c ev = (s, c, 30)) \<and>
   (running s \<and> outcome ev = Raised msg \<longrightarrow>
      poll_loop s c (ev # evs) =
        (case poll_loop (if stop_requested ev then s\<lparr>running := False\<rparr> else s) c evs of
           (s2, c2, ds) \<Rightarrow> (s2, c2, 30 # ds))) \<and>
   (running s \<and> (\<forall>e\<in>set evs. \<not> stop_requested e) \<longrightarrow>
      length (snd (snd (poll_loop s c evs))) = length evs \<and>
      running (fst (poll_loop s c evs)) \<and>
      (\<forall>i<length evs. \<forall>m. outcome (evs ! i) = Raised m \<longrightarrow>
         snd (snd (poll_loop s c evs)) ! i = 30))"
proof (intro conjI impI allI)
  assume "outcome ev = Raised msg"
  then show "poll_body s c ev = Inl msg" by (simp add: poll_body_def)
next
  assume "outcome ev = Raised msg"
  then show "iteration s c ev = (s, c, 30)" by (rule iteration_raised)
next
  assume "running s \<and> outcome ev = Raised msg"
  then show "poll_loop s c (ev # evs) =
        (case poll_loop (if stop_requested ev then s\<lparr>running := False\<rparr> else s) c evs of
           (s2, c2, ds) \<Rightarrow> (s2, c2, 30 # ds))"
    using poll_loop_raised by blast
next
  assume "running s \<and> (\<forall>e\<in>set evs. \<not> stop_requested e)"
  then show "length (snd (snd (poll_loop s c evs))) = length evs"
    using poll_loop_length by blast
next
  assume "running s \<and> (\<forall>e\<in>set evs. \<not> stop_requested e)"
  then show "running (fst (poll_loop s c evs))"
    using poll_loop_length by blast
next
  fix i m
  assume "running s \<and> (\<forall>e\<in>set evs. \<not> stop_requested e)"
    and "i < length evs" and "outcome (evs ! i) = Raised m"
  then show "snd (snd (poll_loop s c evs)) ! i = 30"
    using poll_loop_sleep_30 by blast
qed

text \<open>
  The theorem on a failed fetch, a successful one and another failed one: three passes
  are made, the third sleeps 30 seconds, and the loop is still running.
\<close>

theorem source_failure_never_ends_loop_witness:
  "iteration (start_polling init_poller) 0
     \<lparr>outcome = Raised ''Helix CLI failed with return code 1'', now = 5, stop_requested = False\<rparr> =
     (start_polling init_poller, 0, 30) \<and>
   snd (snd (poll_loop (start_polling init_poller) 0
     [\<lparr>outcome = Raised ''Helix CLI failed with return code 1'', now = 5, stop_requested = False\<rparr>,
      \<lparr>outcome = Returned ''a'', now = 40, stop_requested = False\<rparr>,
      \<lparr>outcome = Raised ''Helix CLI failed with return code 1'', now = 75, stop_requested = False\<rparr>]))
     ! 2 = 30 \<and>
   length (snd (snd (poll_loop (start_polling init_poller) 0
     [\<lparr>outcome = Raised ''Helix CLI failed with return code 1'', now = 5, stop_requested = False\<rparr>,
      \<lparr>outcome = Returned ''a'', now = 40, stop_requested = False\<rparr>,
      \<lparr>outcome = Raised ''Helix CLI failed with return code 1'', now = 75, stop_requested = False\<rparr>])))
     = 3 \<and>
   running (fst (poll_loop (start_polling init_poller) 0
     [\<lparr>outcome = Raised ''Helix CLI failed with return code 1'', now = 5, stop_requested = False\<rparr>,
      \<lparr>outcome = Returned ''a'', now = 40, stop_requested = False\<rparr>,
      \<lparr>outcome = Raised ''Helix CLI failed with return code 1'', now = 75, stop_requested = False\<rparr>]))"
proof -
  let ?fail = "\<lparr>outcome = Raised ''Helix CLI failed with return code 1'', now = 5,
                 stop_requested = False\<rparr>"
  let ?evs = "[?fail,
      \<lparr>outcome = Returned ''a'', now = 40, stop_requested = False\<rparr>,
      \<lparr>outcome = Raised ''Helix CLI failed with return code 1'', now = 75, stop_requested = False\<rparr>]"
  have r: "running (start_polling init_poller)"
    by (simp add: start_polling_def)
  have o: "outcome ?fail = Raised ''Helix CLI failed with return code 1''"
    by simp
  have n: "\<forall>e\<in>set ?evs. \<not> stop_requested e"
    by simp
  have l: "(2::nat) < length ?evs" by simp
  have o2: "outcome (?evs ! 2) = Raised ''Helix CLI failed with return code 1''" by simp
  note th = source_failure_never_ends_loop
      [where s = "start_polling init_poller" and c = 0 and ev = ?fail
         and msg = "''Helix CLI failed with return code 1''" and evs = ?evs]
  from th o have 1: "iteration (start_polling init_poller) 0 ?fail = (start_polling init_poller, 0, 30)"
    by blast
  from th r n have 2: "length (snd (snd (poll_loop (start_polling init_poller) 0 ?evs))) = length ?evs"
    and 3: "running (fst (poll_loop (start_polling init_poller) 0 ?evs))"
    by blast+
  from th r n l o2 have 4: "snd (snd (poll_loop (start_polling init_poller) 0 ?evs)) ! 2 = 30"
    by blast
  from 1 2 3 4 show ?thesis by simp
qed

section \<open>Properties of the key provider\<close>

subsection \<open>Hits, misses and what a call leaves in the cache\<close>

lemma refetch_requests: "requests (refetch s k env) = 1"
  by (simp add: refetch_def split: sum.splits prod.splits)

lemma refetch_other: "k' \<noteq> k \<Longrightarrow> cache (provider_after (refetch s k' env)) k = cache s k"
  by (simp add: refetch_def split: sum.splits prod.splits)

lemma fetch_hit:
  "cache s k = Some c \<Longrightarrow> check_time env \<le> expires_at c \<Longrightarrow>
   fetch_api_key s k env = \<lparr>returned = Inr (key c), provider_after = s, requests = 0\<rparr>"
  by (simp add: fetch_api_key_def is_expired_def)

lemma fetch_miss:
  "\<not> cache_valid s k (check_time env) \<Longrightarrow> fetch_api_key s k env = refetch s k env"
  by (simp add: fetch_api_key_def cache_valid_def is_expired_def split: option.splits)

lemma fetch_other: "k' \<noteq> k \<Longrightarrow> cache (provider_after (fetch_api_key s k' env)) k = cache s k"
  by (simp add: fetch_api_key_def refetch_other split: option.splits)

lemma refetch_stored:
  "returned (refetch s k env) = Inr v \<Longrightarrow>
   \<exists>data expires_in x.
     response env = Body data \<and>
     read_key_response (config s) data = Inr (JStr v, expires_in) \<and>
     as_number expires_in = Inr x \<and>
     cache (provider_after (refetch s k env)) k =
       Some \<lparr>key = v, expires_at = store_time env + x\<rparr>"
  by (auto simp: refetch_def fetch_new_key_def
           split: sum.splits prod.splits http_result.splits if_splits json.splits)

lemma refetch_success:
  "response env = Body data \<Longrightarrow> read_key_response (config s) data = Inr (JStr v, JNum x) \<Longrightarrow>
   v \<noteq> [] \<Longrightarrow>
   refetch s k env =
     \<lparr>returned = Inr v,
      provider_after = s\<lparr>cache := (cache s)(k \<mapsto> \<lparr>key = v, expires_at = store_time env + x\<rparr>)\<rparr>,
      requests = 1\<rparr>"
  by (simp add: refetch_def fetch_new_key_def)

lemma refetch_invalid:
  "response env = Body data \<Longrightarrow> read_key_response (config s) data = Inr (v, e) \<Longrightarrow>
   \<not> truthy v \<Longrightarrow>
   refetch s k env =
     \<lparr>returned = Inl (ProviderKeyError ''Unexpected error fetching API key''
         (ErrorStr (ProviderKeyError ''Invalid response from key endpoint''
            (EndpointDidNotReturn k data)))),
      provider_after = s, requests = 1\<rparr>"
  by (simp add: refetch_def fetch_new_key_def)

text \<open>
  A valid entry for \<open>k\<close> outlives any number of calls, for \<open>k\<close> or for other keys, as long
  as every call for \<open>k\<close> is made while the entry is valid.
\<close>

lemma fetch_keeps_valid_entry:
  "cache s k = Some c \<Longrightarrow> (k' = k \<longrightarrow> check_time env \<le> expires_at c) \<Longrightarrow>
   cache (provider_after (fetch_api_key s k' env)) k = Some c"
  by (cases "k' = k") (simp_all add: fetch_hit fetch_other)

lemma fetch_seq_valid:
  "cache s k = Some c \<Longrightarrow>
   \<forall>call \<in> set calls. fst call = k \<longrightarrow> check_time (snd call) \<le> expires_at c \<Longrightarrow>
   i < length calls \<Longrightarrow> fst (calls ! i) = k \<Longrightarrow>
   returned (fetch_seq s calls ! i) = Inr (key c) \<and> requests (fetch_seq s calls ! i) = 0"
proof (induction calls arbitrary: s i)
  case Nil
  then show ?case by simp
next
  case (Cons call calls)
  obtain k' env where call: "call = (k', env)" by (cases call)
  have keep: "cache (provider_after (fetch_api_key s k' env)) k = Some c"
    using Cons.prems(1,2) call by (simp add: fetch_keeps_valid_entry)
  show ?case
  proof (cases i)
    case 0
    then have "k' = k" "check_time env \<le> expires_at c"
      using Cons.prems(2,4) call by simp_all
    with 0 Cons.prems(1) call show ?thesis by (simp add: fetch_hit)
  next
    case (Suc j)
    have "\<forall>call \<in> set calls. fst call = k \<longrightarrow> check_time (snd call) \<le> expires_at c"
      using Cons.prems(2) by simp
    moreover have "j < length calls" "fst (calls ! j) = k"
      using Suc Cons.prems(3,4) by simp_all
    ultimately have
      "returned (fetch_seq (provider_after (fetch_api_key s k' env)) calls ! j) = Inr (key c) \<and>
       requests (fetch_seq (provider_after (fetch_api_key s k' env)) calls ! j) = 0"
      using keep Cons.IH by blast
    then show ?thesis using Suc call by simp
  qed
qed

lemma fetch_seq_late:
  "cache s k = Some c \<Longrightarrow>
   \<forall>call \<in> set calls. fst call = k \<longrightarrow> check_time (snd call) \<le> expires_at c \<Longrightarrow>
   check_time env > expires_at c \<Longrightarrow>
   requests (fetch_seq s (calls @ [(k, env)]) ! length calls) = 1"
proof (induction calls arbitrary: s)
  case Nil
  then show ?case by (simp add: fetch_api_key_def is_expired_def refetch_requests)
next
  case (Cons call calls)
  obtain k' env' where call: "call = (k', env')" by (cases call)
  have keep: "cache (provider_after (fetch_api_key s k' env')) k = Some c"
    using Cons.prems(1,2) call by (simp add: fetch_keeps_valid_entry)
  have "\<forall>call \<in> set calls. fst call = k \<longrightarrow> check_time (snd call) \<le> expires_at c"
    using Cons.prems(2) by simp
  with keep have
    "requests (fetch_seq (provider_after (fetch_api_key s k' env')) (calls @ [(k, env)])
       ! length calls) = 1"
    using Cons.prems(3) by (rule Cons.IH)
  then show ?case using call by simp
qed

subsection \<open>Reading the response\<close>

text \<open>
  C4. The response is read by the presence of its fields, \<^verbatim>\<open>token\<close> first. With
  \<^verbatim>\<open>token\<close> present the value is the token, and \<^verbatim>\<open>expires_in\<close> is
  \<open>max(60, 1800 - age_seconds)\<close> when \<^verbatim>\<open>age_seconds\<close> is present (a number), else the
  configured cache duration. Without \<^verbatim>\<open>token\<close> and with \<^verbatim>\<open>api_key\<close> present the
  value is the api key, and \<^verbatim>\<open>expires_in\<close> is the response's field of that name when
  present, else the configured cache duration. When no valid entry is cached and the
  value read is a non-empty string with a numeric \<^verbatim>\<open>expires_in\<close>, the call returns the
  value and stores it with the expiry \<open>now + expires_in\<close>, after one request.
\<close>

theorem response_read_by_field_presence:
  "(data ''token'' = Some tok \<and> data ''age_seconds'' = Some (JNum a) \<longrightarrow>
      read_key_response cfg data = Inr (tok, JNum (max 60 (1800 - a)))) \<and>
   (data ''token'' = Some tok \<and> data ''age_seconds'' = None \<longrightarrow>
      read_key_response cfg data =
        Inr (tok, JNum (real_of_int (cache_duration_seconds cfg)))) \<and>
   (data ''token'' = None \<and> data ''api_key'' = Some k \<and> data ''expires_in'' = Some e \<longrightarrow>
      read_key_response cfg data = Inr (k, e)) \<and>
   (data ''token'' = None \<and> data ''api_key'' = Some k \<and> data ''expires_in'' = None \<longrightarrow>
      read_key_response cfg data =
        Inr (k, JNum (real_of_int (cache_duration_seconds cfg)))) \<and>
   (\<not> cache_valid s name (check_time env) \<and> response env = Body data \<and>
    read_key_response (config s) data = Inr (JStr v, JNum x) \<and> v \<noteq> [] \<longrightarrow>
      fetch_api_key s name env =
        \<lparr>returned = Inr v,
         provider_after =
           s\<lparr>cache := (cache s)(name \<mapsto> \<lparr>key = v, expires_at = store_time env + x\<rparr>)\<rparr>,
         requests = 1\<rparr>)"
proof (intro conjI impI)
  assume "\<not> cache_valid s name (check_time env) \<and> response env = Body data \<and>
    read_key_response (config s) data = Inr (JStr v, JNum x) \<and> v \<noteq> []"
  then show "fetch_api_key s name env =
        \<lparr>returned = Inr v,
         provider_after =
           s\<lparr>cache := (cache s)(name \<mapsto> \<lparr>key = v, expires_at = store_time env + x\<rparr>)\<rparr>,
         requests = 1\<rparr>"
    by (simp add: fetch_miss refetch_success)
qed (simp_all add: read_key_response_def)

text \<open>
  The two responses of the specification: a token of age 1700 gives
  \<open>expires_in = 100\<close>, an api key without \<^verbatim>\<open>expires_in\<close> gives the configured 300;
  fetched at time 1001 into an empty cache, the token is stored until 1101.
\<close>

theorem response_read_by_field_presence_witness:
  "read_key_response example_config
     [''token'' \<mapsto> JStr ''abc'', ''age_seconds'' \<mapsto> JNum 1700] =
     Inr (JStr ''abc'', JNum 100) \<and>
   read_key_response example_config [''api_key'' \<mapsto> JStr ''xyz''] =
     Inr (JStr ''xyz'', JNum 300) \<and>
   fetch_api_key \<lparr>config = example_config, cache = Map.empty\<rparr> ''anthropic''
     \<lparr>check_time = 1000,
      response = Body [''token'' \<mapsto> JStr ''abc'', ''age_seconds'' \<mapsto> JNum 1700],
      store_time = 1001\<rparr> =
     \<lparr>returned = Inr ''abc'',
      provider_after =
        \<lparr>config = example_config,
         cache = [''anthropic'' \<mapsto> \<lparr>key = ''abc'', expires_at = 1101\<rparr>]\<rparr>,
      requests = 1\<rparr>"
  using
    response_read_by_field_presence
      [where data = "[''token'' \<mapsto> JStr ''abc'', ''age_seconds'' \<mapsto> JNum 1700]"
         and tok = "JStr ''abc''" and a = 1700 and cfg = example_config
         and s = "\<lparr>config = example_config, cache = Map.empty\<rparr>" and name = "''anthropic''"
         and env = "\<lparr>check_time = 1000,
            response = Body [''token'' \<mapsto> JStr ''abc'', ''age_seconds'' \<mapsto> JNum 1700],
            store_time = 1001\<rparr>"
         and v = "''abc''" and x = 100]
    response_read_by_field_presence
      [where data = "[''api_key'' \<mapsto> JStr ''xyz'']" and k = "JStr ''xyz''"
         and cfg = example_config]
  by (simp add: cache_valid_def example_config_def)

subsection \<open>The cache round trip\<close>

text \<open>
  C5. After a call for \<open>k\<close> that went to the network and succeeded with value \<open>v\<close>, the
  cache holds \<open>v\<close> for \<open>k\<close> with \<open>expiresAt = now + expires_in\<close>. In any sequence of later
  calls (for \<open>k\<close> or for other keys) in which every call for \<open>k\<close> is made while
  \<open>now \<le> expiresAt\<close>, each call for \<open>k\<close> returns the same \<open>v\<close> and sends no request; and
  the next call for \<open>k\<close> made once \<open>now > expiresAt\<close> sends exactly one request.
\<close>

theorem cache_round_trip:
  "returned (fetch_api_key s k env0) = Inr v \<and> requests (fetch_api_key s k env0) = 1 \<longrightarrow>
     (\<exists>data expires_in x.
        response env0 = Body data \<and>
        read_key_response (config s) data = Inr (JStr v, expires_in) \<and>
        as_number expires_in = Inr x \<and>
        cache (provider_after (fetch_api_key s k env0)) k =
          Some \<lparr>key = v, expires_at = store_time env0 + x\<rparr> \<and>
        (\<forall>calls.
           (\<forall>call\<in>set calls. fst call = k \<longrightarrow> check_time (snd call) \<le> store_time env0 + x) \<longrightarrow>
           (\<forall>i<length calls. fst (calls ! i) = k \<longrightarrow>
              returned (fetch_seq (provider_after (fetch_api_key s k env0)) calls ! i) = Inr v \<and>
              requests (fetch_seq (provider_after (fetch_api_key s k env0)) calls ! i) = 0) \<and>
           (\<forall>env. check_time env > store_time env0 + x \<longrightarrow>
              requests (fetch_seq (provider_after (fetch_api_key s k env0))
                          (calls @ [(k, env)]) ! length calls) = 1)))"
proof
  assume a: "returned (fetch_api_key s k env0) = Inr v \<and> requests (fetch_api_key s k env0) = 1"
  let ?s1 = "provider_after (fetch_api_key s k env0)"
  have re: "fetch_api_key s k env0 = refetch s k env0"
    using a by (auto simp: fetch_api_key_def split: option.splits if_splits)
  from a re refetch_stored [of s k env0 v]
  obtain data expires_in x where
    d: "response env0 = Body data"
       "read_key_response (config s) data = Inr (JStr v, expires_in)"
       "as_number expires_in = Inr x"
       "cache ?s1 k = Some \<lparr>key = v, expires_at = store_time env0 + x\<rparr>"
    by auto
  have hits: "\<forall>calls.
           (\<forall>call\<in>set calls. fst call = k \<longrightarrow> check_time (snd call) \<le> store_time env0 + x) \<longrightarrow>
           (\<forall>i<length calls. fst (calls ! i) = k \<longrightarrow>
              returned (fetch_seq ?s1 calls ! i) = Inr v \<and>
              requests (fetch_seq ?s1 calls ! i) = 0) \<and>
           (\<forall>env. check_time env > store_time env0 + x \<longrightarrow>
              requests (fetch_seq ?s1 (calls @ [(k, env)]) ! length calls) = 1)"
    using fetch_seq_valid [OF d(4)] fetch_seq_late [OF d(4)] by simp
  from d hits show "\<exists>data expires_in x.
        response env0 = Body data \<and>
        read_key_response (config s) data = Inr (JStr v, expires_in) \<and>
        as_number expires_in = Inr x \<and>
        cache ?s1 k = Some \<lparr>key = v, expires_at = store_time env0 + x\<rparr> \<and>
        (\<forall>calls.
           (\<forall>call\<in>set calls. fst call = k \<longrightarrow> check_time (snd call) \<le> store_time env0 + x) \<longrightarrow>
           (\<forall>i<length calls. fst (calls ! i) = k \<longrightarrow>
              returned (fetch_seq ?s1 calls ! i) = Inr v \<and>
              requests (fetch_seq ?s1 calls ! i) = 0) \<and>
           (\<forall>env. check_time env > store_time env0 + x \<longrightarrow>
              requests (fetch_seq ?s1 (calls @ [(k, env)]) ! length calls) = 1))"
    by blast
qed

text \<open>
  The round trip of the specification: \<^verbatim>\<open>anthropic\<close> is fetched at time 1000 with
  \<open>expires_in = 120\<close>; calls at 1060 and at 1120, with a failing call for another key
  between them, hit the cache, and the call at 1121 sends one request.
\<close>

theorem cache_round_trip_witness:
  "returned (fetch_api_key \<lparr>config = example_config, cache = Map.empty\<rparr> ''anthropic''
     \<lparr>check_time = 999,
      response = Body [''api_key'' \<mapsto> JStr ''xyz'', ''expires_in'' \<mapsto> JNum 120],
      store_time = 1000\<rparr>) = Inr ''xyz'' \<and>
   returned (fetch_seq
      (provider_after (fetch_api_key \<lparr>config = example_config, cache = Map.empty\<rparr> ''anthropic''
         \<lparr>check_time = 999,
          response = Body [''api_key'' \<mapsto> JStr ''xyz'', ''expires_in'' \<mapsto> JNum 120],
          store_time = 1000\<rparr>))
      [(''anthropic'',
        \<lparr>check_time = 1060, response = RequestFailed ''unreachable'', store_time = 1060\<rparr>),
       (''openai'',
        \<lparr>check_time = 1070, response = StatusFailed 500 ''error'', store_time = 1070\<rparr>),
       (''anthropic'',
        \<lparr>check_time = 1120, response = RequestFailed ''unreachable'', store_time = 1120\<rparr>)]
      ! 2) = Inr ''xyz'' \<and>
   requests (fetch_seq
      (provider_after (fetch_api_key \<lparr>config = example_config, cache = Map.empty\<rparr> ''anthropic''
         \<lparr>check_time = 999,
          response = Body [''api_key'' \<mapsto> JStr ''xyz'', ''expires_in'' \<mapsto> JNum 120],
          store_time = 1000\<rparr>))
      [(''anthropic'',
        \<lparr>check_time = 1060, response = RequestFailed ''unreachable'', store_time = 1060\<rparr>),
       (''openai'',
        \<lparr>check_time = 1070, response = StatusFailed 500 ''error'', store_time = 1070\<rparr>),
       (''anthropic'',
        \<lparr>check_time = 1120, response = RequestFailed ''unreachable'', store_time = 1120\<rparr>)]
      ! 2) = 0 \<and>
   requests (fetch_seq
      (provider_after (fetch_api_key \<lparr>config = example_config, cache = Map.empty\<rparr> ''anthropic''
         \<lparr>check_time = 999,
          response = Body [''api_key'' \<mapsto> JStr ''xyz'', ''expires_in'' \<mapsto> JNum 120],
          store_time = 1000\<rparr>))
      ([(''anthropic'',
         \<lparr>check_time = 1060, response = RequestFailed ''unreachable'', store_time = 1060\<rparr>),
        (''openai'',
         \<lparr>check_time = 1070, response = StatusFailed 500 ''error'', store_time = 1070\<rparr>),
        (''anthropic'',
         \<lparr>check_time = 1120, response = RequestFailed ''unreachable'', store_time = 1120\<rparr>)] @
       [(''anthropic'',
         \<lparr>check_time = 1121, response = RequestFailed ''unreachable'', store_time = 1121\<rparr>)])
      ! 3) = 1"
proof -
  let ?s0 = "\<lparr>config = example_config, cache = Map.empty\<rparr>"
  let ?e0 = "\<lparr>check_time = 999,
      response = Body [''api_key'' \<mapsto> JStr ''xyz'', ''expires_in'' \<mapsto> JNum 120],
      store_time = 1000\<rparr>"
  let ?s1 = "provider_after (fetch_api_key ?s0 ''anthropic'' ?e0)"
  let ?calls = "[(''anthropic'',
        \<lparr>check_time = 1060, response = RequestFailed ''unreachable'', store_time = 1060\<rparr>),
       (''openai'',
        \<lparr>check_time = 1070, response = StatusFailed 500 ''error'', store_time = 1070\<rparr>),
       (''anthropic'',
        \<lparr>check_time = 1120, response = RequestFailed ''unreachable'', store_time = 1120\<rparr>)]"
  let ?late = "\<lparr>check_time = 1121, response = RequestFailed ''unreachable'',
      store_time = 1121\<rparr>"
  have first: "fetch_api_key ?s0 ''anthropic'' ?e0 =
      \<lparr>returned = Inr ''xyz'',
       provider_after = \<lparr>config = example_config,
          cache = [''anthropic'' \<mapsto> \<lparr>key = ''xyz'', expires_at = 1120\<rparr>]\<rparr>,
       requests = 1\<rparr>"
    by (simp add: fetch_api_key_def refetch_def fetch_new_key_def read_key_response_def)
  then have a: "returned (fetch_api_key ?s0 ''anthropic'' ?e0) = Inr ''xyz'' \<and>
      requests (fetch_api_key ?s0 ''anthropic'' ?e0) = 1"
    by simp
  from a cache_round_trip [of ?s0 "''anthropic''" ?e0 "''xyz''"]
  obtain x where
    c: "cache ?s1 ''anthropic'' = Some \<lparr>key = ''xyz'', expires_at = store_time ?e0 + x\<rparr>"
    and h: "\<And>calls.
        (\<forall>call\<in>set calls. fst call = ''anthropic'' \<longrightarrow>
             check_time (snd call) \<le> store_time ?e0 + x) \<Longrightarrow>
        (\<forall>i<length calls. fst (calls ! i) = ''anthropic'' \<longrightarrow>
           returned (fetch_seq ?s1 calls ! i) = Inr ''xyz'' \<and>
           requests (fetch_seq ?s1 calls ! i) = 0) \<and>
        (\<forall>env. check_time env > store_time ?e0 + x \<longrightarrow>
           requests (fetch_seq ?s1 (calls @ [(''anthropic'', env)]) ! length calls) = 1)"
    by blast
  from c first have x: "x = 120" by simp
  have v: "\<forall>call\<in>set ?calls. fst call = ''anthropic'' \<longrightarrow>
      check_time (snd call) \<le> store_time ?e0 + x"
    unfolding x by simp
  have l: "(2::nat) < length ?calls" "fst (?calls ! 2) = ''anthropic''" "length ?calls = 3"
    by simp_all
  have t: "check_time ?late > store_time ?e0 + x"
    unfolding x by simp
  from h [OF v] l(1,2) have hit:
    "returned (fetch_seq ?s1 ?calls ! 2) = Inr ''xyz'' \<and>
     requests (fetch_seq ?s1 ?calls ! 2) = 0"
    by blast
  from h [OF v] t have "requests (fetch_seq ?s1 (?calls @ [(''anthropic'', ?late)])
      ! length ?calls) = 1"
    by blast
  then have late: "requests (fetch_seq ?s1 (?calls @ [(''anthropic'', ?late)]) ! 3) = 1"
    unfolding l(3) .
  from a hit late show ?thesis by blast
qed

subsection \<open>Transport failures\<close>

text \<open>
  C7. When no valid entry is cached, so that the request is made, and the transport
  fails, the call fails with the error of the matching handler: for a connection error or
  a timeout (\<^verbatim>\<open>httpx.RequestError\<close>) the one that carries the endpoint and the cause,
  for a status outside 2xx (\<^verbatim>\<open>httpx.HTTPStatusError\<close>) the one that carries the status
  code and the response text. The provider, and with it the cache, is as before the call,
  and no value, stale or empty, is returned in place of the error.
\<close>

theorem transport_failure_surfaced:
  "\<not> cache_valid s k (check_time env) \<longrightarrow>
     (response env = RequestFailed cause \<longrightarrow>
        fetch_api_key s k env =
          \<lparr>returned = Inl (ProviderKeyError ''Failed to connect to key endpoint''
                             (CouldNotReach (endpoint_url (config s)) cause)),
           provider_after = s, requests = 1\<rparr>) \<and>
     (response env = StatusFailed status_code resp_text \<longrightarrow>
        fetch_api_key s k env =
          \<lparr>returned = Inl (ProviderKeyError (''Failed to fetch API key for '' @ k)
                             (HTTPText status_code resp_text)),
           provider_after = s, requests = 1\<rparr>)"
  by (simp add: fetch_miss refetch_def fetch_new_key_def)

text \<open>
  The theorem with an expired entry in the cache and a 503, and with an empty cache and
  a timeout: the error is returned, the expired entry is neither returned nor removed.
\<close>

theorem transport_failure_surfaced_witness:
  "fetch_api_key
     \<lparr>config = example_config,
      cache = [''anthropic'' \<mapsto> \<lparr>key = ''old'', expires_at = 500\<rparr>]\<rparr>
     ''anthropic''
     \<lparr>check_time = 1000, response = StatusFailed 503 ''Service Unavailable'',
      store_time = 1001\<rparr> =
     \<lparr>returned = Inl (ProviderKeyError ''Failed to fetch API key for anthropic''
                        (HTTPText 503 ''Service Unavailable'')),
      provider_after =
        \<lparr>config = example_config,
         cache = [''anthropic'' \<mapsto> \<lparr>key = ''old'', expires_at = 500\<rparr>]\<rparr>,
      requests = 1\<rparr> \<and>
   fetch_api_key \<lparr>config = example_config, cache = Map.empty\<rparr> ''anthropic''
     \<lparr>check_time = 1000, response = RequestFailed ''timed out'', store_time = 1001\<rparr> =
     \<lparr>returned = Inl (ProviderKeyError ''Failed to connect to key endpoint''
                        (CouldNotReach ''http://localhost:8000'' ''timed out'')),
      provider_after = \<lparr>config = example_config, cache = Map.empty\<rparr>,
      requests = 1\<rparr>"
  using
    transport_failure_surfaced
      [where s = "\<lparr>config = example_config,
                    cache = [''anthropic'' \<mapsto> \<lparr>key = ''old'', expires_at = 500\<rparr>]\<rparr>"
         and k = "''anthropic''"
         and env = "\<lparr>check_time = 1000, response = StatusFailed 503 ''Service Unavailable'',
                     store_time = 1001\<rparr>"
         and status_code = 503 and resp_text = "''Service Unavailable''"]
    transport_failure_surfaced
      [where s = "\<lparr>config = example_config, cache = Map.empty\<rparr>"
         and k = "''anthropic''"
         and env = "\<lparr>check_time = 1000, response = RequestFailed ''timed out'',
                     store_time = 1001\<rparr>"
         and cause = "''timed out''"]
  by (simp add: cache_valid_def example_config_def)

subsection \<open>Responses without a usable key\<close>

text \<open>
  C6, at the response \<^verbatim>\<open>{"unexpected": "field"}\<close> with an expired entry cached. The
  \<^verbatim>\<open>raise\<close> of the error ``Invalid response from key endpoint'' stands inside the
  \<^verbatim>\<open>try\<close>, so the handler \<^verbatim>\<open>except Exception\<close> of the same \<^verbatim>\<open>try\<close> catches it: the
  caller gets ``Unexpected error fetching API key'', whose details are the text of the
  caught error. The call fails and the cache entry is untouched, as the claim says; the
  error that reaches the caller is not the invalid-response error that the code raises
  with the provider name and the response.
\<close>

theorem invalid_response_surfaces_as_unexpected_error:
  "fetch_api_key
     \<lparr>config = example_config,
      cache = [''anthropic'' \<mapsto> \<lparr>key = ''old'', expires_at = 500\<rparr>]\<rparr>
     ''anthropic''
     \<lparr>check_time = 1000, response = Body [''unexpected'' \<mapsto> JStr ''field''],
      store_time = 1001\<rparr> =
     \<lparr>returned = Inl (ProviderKeyError ''Unexpected error fetching API key''
         (ErrorStr (ProviderKeyError ''Invalid response from key endpoint''
            (EndpointDidNotReturn ''anthropic'' [''unexpected'' \<mapsto> JStr ''field''])))),
      provider_after =
        \<lparr>config = example_config,
         cache = [''anthropic'' \<mapsto> \<lparr>key = ''old'', expires_at = 500\<rparr>]\<rparr>,
      requests = 1\<rparr>"
  by (simp add: fetch_api_key_def is_expired_def refetch_def fetch_new_key_def
        read_key_response_def)

text \<open>
  C10, at the response \<^verbatim>\<open>{"token": ""}\<close> with an empty cache. The test is on the truth
  value of the value read, so the empty token is refused: nothing is cached and nothing
  is returned. The error takes the same way as for C6, through \<^verbatim>\<open>except Exception\<close>,
  and reaches the caller as ``Unexpected error fetching API key''.
\<close>

theorem empty_token_surfaces_as_unexpected_error:
  "fetch_api_key \<lparr>config = example_config, cache = Map.empty\<rparr> ''anthropic''
     \<lparr>check_time = 1000, response = Body [''token'' \<mapsto> JStr ''''], store_time = 1001\<rparr> =
     \<lparr>returned = Inl (ProviderKeyError ''Unexpected error fetching API key''
         (ErrorStr (ProviderKeyError ''Invalid response from key endpoint''
            (EndpointDidNotReturn ''anthropic'' [''token'' \<mapsto> JStr ''''])))),
      provider_after = \<lparr>config = example_config, cache = Map.empty\<rparr>,
      requests = 1\<rparr>"
  by (simp add: fetch_api_key_def is_expired_def refetch_def fetch_new_key_def
        read_key_response_def)

text \<open>
  What holds of such responses in general. A body with neither field is read as no key
  at all; and whenever no valid entry is cached and the value read from a 2xx body is
  falsy (no field, or an empty one), the call ends in an error after one request and
  leaves the provider, and so every cache entry, as it was.
\<close>

theorem unusable_key_fails_and_keeps_cache:
  "(data ''token'' = None \<and> data ''api_key'' = None \<longrightarrow>
      read_key_response cfg data =
        Inr (JNull, JNum (real_of_int (cache_duration_seconds cfg)))) \<and>
   (\<not> cache_valid s k (check_time env) \<and> response env = Body data \<and>
    read_key_response (config s) data = Inr (v, e) \<and> \<not> truthy v \<longrightarrow>
      (\<exists>err. returned (fetch_api_key s k env) = Inl err) \<and>
      provider_after (fetch_api_key s k env) = s \<and>
      requests (fetch_api_key s k env) = 1)"
proof (intro conjI impI)
  assume "data ''token'' = None \<and> data ''api_key'' = None"
  then show "read_key_response cfg data =
      Inr (JNull, JNum (real_of_int (cache_duration_seconds cfg)))"
    by (simp add: read_key_response_def)
next
  assume a: "\<not> cache_valid s k (check_time env) \<and> response env = Body data \<and>
    read_key_response (config s) data = Inr (v, e) \<and> \<not> truthy v"
  then have r: "fetch_api_key s k env =
     \<lparr>returned = Inl (ProviderKeyError ''Unexpected error fetching API key''
         (ErrorStr (ProviderKeyError ''Invalid response from key endpoint''
            (EndpointDidNotReturn k data)))),
      provider_after = s, requests = 1\<rparr>"
    by (simp add: fetch_miss refetch_invalid)
  show "\<exists>err. returned (fetch_api_key s k env) = Inl err"
    unfolding r by simp
  show "provider_after (fetch_api_key s k env) = s"
    unfolding r by simp
  show "requests (fetch_api_key s k env) = 1"
    unfolding r by simp
qed

text \<open>
  The theorem at an empty \<^verbatim>\<open>api_key\<close>, with an expired entry in the cache: the entry
  is still there after the failed call.
\<close>

theorem unusable_key_fails_and_keeps_cache_witness:
  "read_key_response example_config Map.empty = Inr (JNull, JNum 300) \<and>
   cache (provider_after (fetch_api_key
     \<lparr>config = example_config,
      cache = [''anthropic'' \<mapsto> \<lparr>key = ''old'', expires_at = 500\<rparr>]\<rparr>
     ''anthropic''
     \<lparr>check_time = 1000, response = Body [''api_key'' \<mapsto> JStr ''''],
      store_time = 1001\<rparr>)) ''anthropic'' = Some \<lparr>key = ''old'', expires_at = 500\<rparr> \<and>
   requests (fetch_api_key
     \<lparr>config = example_config,
      cache = [''anthropic'' \<mapsto> \<lparr>key = ''old'', expires_at = 500\<rparr>]\<rparr>
     ''anthropic''
     \<lparr>check_time = 1000, response = Body [''api_key'' \<mapsto> JStr ''''],
      store_time = 1001\<rparr>) = 1"
  using
    unusable_key_fails_and_keeps_cache
      [where data = "Map.empty" and cfg = example_config
         and s = "\<lparr>config = example_config,
                    cache = [''anthropic'' \<mapsto> \<lparr>key = ''old'', expires_at = 500\<rparr>]\<rparr>"
         and k = "''anthropic''"
         and env = "\<lparr>check_time = 1000, response = Body [''api_key'' \<mapsto> JStr ''''],
                     store_time = 1001\<rparr>"]
    unusable_key_fails_and_keeps_cache
      [where data = "[''api_key'' \<mapsto> JStr '''']" and cfg = example_config
         and s = "\<lparr>config = example_config,
                    cache = [''anthropic'' \<mapsto> \<lparr>key = ''old'', expires_at = 500\<rparr>]\<rparr>"
         and k = "''anthropic''"
         and env = "\<lparr>check_time = 1000, response = Body [''api_key'' \<mapsto> JStr ''''],
                     store_time = 1001\<rparr>"
         and v = "JStr ''''" and e = "JNum 300"]
  by (simp add: cache_valid_def example_config_def read_key_response_def)

end
